theory Spec2Isabelle
  imports Main "HOL-Library.Word" "HOL-Library.AList"
begin

unbundle bit_operations_syntax

section \<open>The value model: what an \<open>interface{}\<close> of the engine holds\<close>

text \<open>
  The functions of \<^verbatim>\<open>api_util/map.go\<close> work on Go values of type \<^verbatim>\<open>interface{}\<close> as the
  JSON and YAML decoders and the test plans produce them. A value is the nil interface, a
  \<^verbatim>\<open>bool\<close>, an \<^verbatim>\<open>int\<close>, a \<^verbatim>\<open>float64\<close> (kept as its IEEE 754 bit pattern), a \<^verbatim>\<open>string\<close>, a
  \<^verbatim>\<open>json.Number\<close> (a named string type: a number kept as its source text), a slice
  \<^verbatim>\<open>[]interface{}\<close> or a map \<^verbatim>\<open>map[string]interface{}\<close>.

  A Go slice or map variable can be nil; a nil map inside an interface is not the nil
  interface. \<open>None\<close> is the nil slice or map, \<open>Some xs\<close> an allocated one. A map is the
  list of its entries in the order in which \<^verbatim>\<open>range\<close> enumerates them (Go leaves that order
  open, so every order is a possible list); the keys of a Go map are distinct.
\<close>

datatype val =
    VNil
  | VBool bool
  | VInt int
  | VFloat64 "64 word"
  | VString string
  | VJsonNumber string
  | VSlice "val list option"
  | VMap "(string \<times> val) list option"

type_synonym gomap = "(string \<times> val) list option"
type_synonym goslice = "val list option"

text \<open>\<^verbatim>\<open>len(m)\<close>: a nil map or slice has length 0.\<close>

definition len :: "'a list option \<Rightarrow> nat" where
  "len m = (case m of None \<Rightarrow> 0 | Some xs \<Rightarrow> length xs)"

text \<open>What \<^verbatim>\<open>range m\<close> enumerates: nothing for nil.\<close>

definition entries :: "'a list option \<Rightarrow> 'a list" where
  "entries m = (case m of None \<Rightarrow> [] | Some xs \<Rightarrow> xs)"

text \<open>\<^verbatim>\<open>v, ok := m[k]\<close> and \<^verbatim>\<open>m[k]\<close>: a missing key (and any key of a nil map) reads as
  the zero value, the nil interface.\<close>

definition index_ok :: "gomap \<Rightarrow> string \<Rightarrow> val option" where
  "index_ok m k = map_of (entries m) k"

definition index :: "gomap \<Rightarrow> string \<Rightarrow> val" where
  "index m k = (case index_ok m k of None \<Rightarrow> VNil | Some v \<Rightarrow> v)"

definition keys :: "gomap \<Rightarrow> string set" where
  "keys m = fst ` set (entries m)"

section \<open>Tree copy: \<open>MapCopy\<close> and \<open>ArrayCopy\<close>\<close>

text \<open>
  \<^verbatim>\<open>
  func MapCopy(src map[string]interface{}) map[string]interface{} {
      if len(src) == 0 { return nil }
      dst := make(map[string]interface{})
      for k, v := range src {
          if m, ok := v.(map[string]interface{}); ok { v = MapCopy(m) }
          if a, ok := v.([]interface{}); ok { v = ArrayCopy(a) }
          dst[k] = v
      }
      return dst
  }
  func ArrayCopy(src []interface{}) (dst []interface{}) {
      if len(src) == 0 { return nil }
      for _, v := range src { (the same two tests); dst = append(dst, v) }
      return dst
  }
  \<close>
  \<open>copy_value\<close> is the two type tests of the loop bodies; the \<open>_range\<close> functions are
  the loops, with \<open>dst\<close> as the accumulator. \<open>dst[k] = v\<close> is \<open>AList.update k v dst\<close>.
\<close>

function MapCopy :: "gomap \<Rightarrow> gomap"
  and MapCopy_range :: "(string \<times> val) list \<Rightarrow> (string \<times> val) list \<Rightarrow> (string \<times> val) list"
  and ArrayCopy :: "goslice \<Rightarrow> goslice"
  and ArrayCopy_range :: "val list \<Rightarrow> val list \<Rightarrow> val list"
  and copy_value :: "val \<Rightarrow> val"
where
  "MapCopy None = None"
| "MapCopy (Some src) = (if length src = 0 then None else Some (MapCopy_range src []))"
| "MapCopy_range [] dst = dst"
| "MapCopy_range ((k, v) # rest) dst = MapCopy_range rest (AList.update k (copy_value v) dst)"
| "ArrayCopy None = None"
| "ArrayCopy (Some src) = (if length src = 0 then None else Some (ArrayCopy_range src []))"
| "ArrayCopy_range [] dst = dst"
| "ArrayCopy_range (v # rest) dst = ArrayCopy_range rest (dst @ [copy_value v])"
| "copy_value (VMap m) = VMap (MapCopy m)"
| "copy_value (VSlice a) = VSlice (ArrayCopy a)"
| "copy_value VNil = VNil"
| "copy_value (VBool b) = VBool b"
| "copy_value (VInt i) = VInt i"
| "copy_value (VFloat64 f) = VFloat64 f"
| "copy_value (VString s) = VString s"
| "copy_value (VJsonNumber n) = VJsonNumber n"
  by pat_completeness auto
termination
  by (relation "measure (\<lambda>x. case x of
        Inl (Inl m) \<Rightarrow> Suc (size (VMap m))
      | Inl (Inr (src, dst)) \<Rightarrow> size (VMap (Some src))
      | Inr (Inl a) \<Rightarrow> Suc (size (VSlice a))
      | Inr (Inr (Inl (src, dst))) \<Rightarrow> size (VSlice (Some src))
      | Inr (Inr (Inr v)) \<Rightarrow> Suc (Suc (size v)))") auto

section \<open>Tree merge: \<open>MapCombine\<close>, \<open>MapAdd\<close>, \<open>MapReplace\<close>\<close>

text \<open>
  The three functions write into \<open>dst\<close> and return it; the model returns the new content
  of \<open>dst\<close>. No branch assigns into a nil map: the loops of \<open>MapCombine\<close> and \<open>MapAdd\<close>
  run only when \<open>len(dst) \<noteq> 0\<close>, and the loop of \<open>MapReplace\<close> does not run on a nil
  \<open>dst\<close>.
  \<^verbatim>\<open>
  func MapCombine(dst, src map[string]interface{}) map[string]interface{} {
      if len(dst) == 0 { return MapCopy(src) }
      if len(src) == 0 { return dst }
      for k, v := range src { dst[k] = v }
      return dst
  }
  \<close>
\<close>

fun MapCombine_range :: "(string \<times> val) list \<Rightarrow> (string \<times> val) list \<Rightarrow> (string \<times> val) list" where
  "MapCombine_range [] dst = dst"
| "MapCombine_range ((k, v) # rest) dst = MapCombine_range rest (AList.update k v dst)"

definition MapCombine :: "gomap \<Rightarrow> gomap \<Rightarrow> gomap" where
  "MapCombine dst src =
     (if len dst = 0 then MapCopy src
      else if len src = 0 then dst
      else (case dst of
              None \<Rightarrow> None
            | Some d \<Rightarrow> Some (MapCombine_range (entries src) d)))"

text \<open>
  \<^verbatim>\<open>
  func MapAdd(dst, src map[string]interface{}) map[string]interface{} {
      if len(dst) == 0 { return MapCopy(src) }
      if len(src) == 0 { return dst }
      for k, v := range src {
          if _, exist := dst[k]; !exist { dst[k] = v }
      }
      return dst
  }
  \<close>
\<close>

fun MapAdd_range :: "(string \<times> val) list \<Rightarrow> (string \<times> val) list \<Rightarrow> (string \<times> val) list" where
  "MapAdd_range [] dst = dst"
| "MapAdd_range ((k, v) # rest) dst =
     MapAdd_range rest (if map_of dst k = None then AList.update k v dst else dst)"

definition MapAdd :: "gomap \<Rightarrow> gomap \<Rightarrow> gomap" where
  "MapAdd dst src =
     (if len dst = 0 then MapCopy src
      else if len src = 0 then dst
      else (case dst of
              None \<Rightarrow> None
            | Some d \<Rightarrow> Some (MapAdd_range (entries src) d)))"

text \<open>
  \<^verbatim>\<open>
  func MapReplace(dst, src map[string]interface{}) map[string]interface{} {
      if len(src) == 0 { return dst }
      for k := range dst {
          if v, ok := src[k]; ok { dst[k] = v }
      }
      return dst
  }
  \<close>
  The loop runs over the keys of \<open>dst\<close>; an assignment to a key that exists does not
  change the key set, so the keys are those of \<open>dst\<close> at entry.
\<close>

fun MapReplace_range :: "string list \<Rightarrow> gomap \<Rightarrow> (string \<times> val) list \<Rightarrow> (string \<times> val) list" where
  "MapReplace_range [] src dst = dst"
| "MapReplace_range (k # rest) src dst =
     MapReplace_range rest src
       (case index_ok src k of Some v \<Rightarrow> AList.update k v dst | None \<Rightarrow> dst)"

definition MapReplace :: "gomap \<Rightarrow> gomap \<Rightarrow> gomap" where
  "MapReplace dst src =
     (if len src = 0 then dst
      else (case dst of
              None \<Rightarrow> None
            | Some d \<Rightarrow> Some (MapReplace_range (map fst d) src d)))"

section \<open>The library functions the matcher calls\<close>

text \<open>
  \<open>TimeCompare\<close> and \<open>InterfaceEquals\<close> call the Go standard library: \<^verbatim>\<open>time.Parse\<close> with the
  layout \<^verbatim>\<open>time.RFC3339\<close>, the methods \<^verbatim>\<open>Second\<close> and \<^verbatim>\<open>Minute\<close> of \<^verbatim>\<open>time.Time\<close>, and
  \<^verbatim>\<open>json.Marshal\<close>. They are parameters of the model, collected in a record, so that what is
  proved holds for whatever these functions return.

  A \<^verbatim>\<open>time.Time\<close> is a struct of three fields, \<^verbatim>\<open>wall\<close>, \<^verbatim>\<open>ext\<close> and \<^verbatim>\<open>loc\<close>. For a parsed time
  (no monotonic clock reading) the first two hold the instant, seconds and nanoseconds;
  \<^verbatim>\<open>loc\<close> is a pointer to the \<^verbatim>\<open>Location\<close> the time is displayed in, nil for UTC. The
  operator \<^verbatim>\<open>==\<close> on two structs compares every field, the pointer too: in HOL, equality
  of records. \<open>loc = None\<close> is the nil pointer, \<open>Some p\<close> the address \<open>p\<close>.

  \<open>time_Parse\<close> is \<open>None\<close> when \<^verbatim>\<open>time.Parse\<close> returns an error (the time it returns is then
  the zero \<^verbatim>\<open>Time{}\<close>); \<open>json_Marshal\<close> is \<open>None\<close> when \<^verbatim>\<open>json.Marshal\<close> returns an error (the
  byte slice it returns is then nil).
\<close>

record Time =
  sec :: int
  nsec :: int
  loc :: "nat option"

definition zero_Time :: Time where
  "zero_Time = \<lparr>sec = 0, nsec = 0, loc = None\<rparr>"

record golib =
  time_Parse :: "string \<Rightarrow> Time option"
  Second :: "Time \<Rightarrow> int"
  Minute :: "Time \<Rightarrow> int"
  json_Marshal :: "val \<Rightarrow> string option"

text \<open>\<^verbatim>\<open>string(b)\<close> for the bytes \<open>b\<close> of \<^verbatim>\<open>b, _ := json.Marshal(v)\<close>: empty after an error.\<close>

definition string_of_bytes :: "string option \<Rightarrow> string" where
  "string_of_bytes b = (case b of None \<Rightarrow> [] | Some bs \<Rightarrow> bs)"

text \<open>\<^verbatim>\<open>fmt.Sprintf("%d", i)\<close>: the decimal digits of \<open>i\<close>, after a minus sign when negative.\<close>

fun decimal :: "nat \<Rightarrow> string" where
  "decimal n =
     (if n < 10 then [char_of (48 + n)] else decimal (n div 10) @ [char_of (48 + n mod 10)])"

declare decimal.simps [simp del]

definition Sprintf_d :: "int \<Rightarrow> string" where
  "Sprintf_d i = (if i < 0 then CHR ''-'' # decimal (nat (- i)) else decimal (nat i))"

text \<open>\<^verbatim>\<open>strings.Contains(s, substr)\<close>: \<open>substr\<close> occurs in \<open>s\<close> at some position.\<close>

fun HasPrefix :: "string \<Rightarrow> string \<Rightarrow> bool" where
  "HasPrefix s [] = True"
| "HasPrefix [] (c # p) = False"
| "HasPrefix (d # s) (c # p) = (d = c \<and> HasPrefix s p)"

fun strings_Contains :: "string \<Rightarrow> string \<Rightarrow> bool" where
  "strings_Contains [] substr = HasPrefix [] substr"
| "strings_Contains (c # s) substr = (HasPrefix (c # s) substr \<or> strings_Contains s substr)"

section \<open>Time equivalence: \<open>TimeCompare\<close>\<close>

text \<open>
  \<^verbatim>\<open>
  func TimeCompare(v1 interface{}, v2 interface{}) bool {
      s1, ok := v1.(string);  if !ok { return false }
      s2, ok := v2.(string);  if !ok { return false }
      var t time.Time;  var s string;  var b1, b2 bool
      t1, err := time.Parse(time.RFC3339, s1)
      if err == nil { t = t1; s = s2; b1 = true }
      t2, err := time.Parse(time.RFC3339, s2)
      if err == nil { t = t2; s = s1; b2 = true }
      if b1 && b2 { return t1 == t2 }
      if !b1 && !b2 { return false }
      return strings.Contains(s, fmt.Sprintf("%d", t.Second())) &&
             strings.Contains(s, fmt.Sprintf("%d", t.Minute()))
  }
  \<close>
  The type assertion \<^verbatim>\<open>v.(string)\<close> holds for a \<^verbatim>\<open>string\<close> only, not for a \<^verbatim>\<open>json.Number\<close>.
\<close>

definition TimeCompare :: "golib \<Rightarrow> val \<Rightarrow> val \<Rightarrow> bool" where
  "TimeCompare L v1 v2 =
     (case v1 of
        VString s1 \<Rightarrow>
          (case v2 of
             VString s2 \<Rightarrow>
               (let r1 = time_Parse L s1;
                    t1 = (case r1 of Some x \<Rightarrow> x | None \<Rightarrow> zero_Time);
                    (t, s, b1) = (if r1 \<noteq> None then (t1, s2, True) else (zero_Time, [], False));
                    r2 = time_Parse L s2;
                    t2 = (case r2 of Some x \<Rightarrow> x | None \<Rightarrow> zero_Time);
                    (t, s, b2) = (if r2 \<noteq> None then (t2, s1, True) else (t, s, False))
                in if b1 \<and> b2 then t1 = t2
                   else if \<not> b1 \<and> \<not> b2 then False
                   else strings_Contains s (Sprintf_d (Second L t))
                          \<and> strings_Contains s (Sprintf_d (Minute L t)))
           | _ \<Rightarrow> False)
      | _ \<Rightarrow> False)"

section \<open>The matcher: \<open>InterfaceEquals\<close>\<close>

text \<open>
  What \<^verbatim>\<open>reflect.TypeOf\<close> and \<^verbatim>\<open>Kind\<close> return on the values of the model. The kind of a
  \<^verbatim>\<open>json.Number\<close> is \<^verbatim>\<open>reflect.String\<close>. No value of the model has the kinds \<^verbatim>\<open>Float32\<close> and
  \<^verbatim>\<open>Array\<close>, which the code tests as well. The code calls \<^verbatim>\<open>reflect.TypeOf\<close> on non-nil
  values only; \<open>nil_type\<close> stands for the nil \<^verbatim>\<open>Type\<close> it would return on nil.
\<close>

datatype rtype = nil_type | bool_type | int_type | float64_type | string_type
  | json_Number_type | slice_type | map_type

datatype rkind = reflect_Invalid | reflect_Bool | reflect_Int | reflect_Float32
  | reflect_Float64 | reflect_String | reflect_Array | reflect_Slice | reflect_Map

fun TypeOf :: "val \<Rightarrow> rtype" where
  "TypeOf VNil = nil_type"
| "TypeOf (VBool b) = bool_type"
| "TypeOf (VInt i) = int_type"
| "TypeOf (VFloat64 f) = float64_type"
| "TypeOf (VString s) = string_type"
| "TypeOf (VJsonNumber n) = json_Number_type"
| "TypeOf (VSlice a) = slice_type"
| "TypeOf (VMap m) = map_type"

fun Kind :: "rtype \<Rightarrow> rkind" where
  "Kind nil_type = reflect_Invalid"
| "Kind bool_type = reflect_Bool"
| "Kind int_type = reflect_Int"
| "Kind float64_type = reflect_Float64"
| "Kind string_type = reflect_String"
| "Kind json_Number_type = reflect_String"
| "Kind slice_type = reflect_Slice"
| "Kind map_type = reflect_Map"

fun Comparable :: "rtype \<Rightarrow> bool" where
  "Comparable slice_type = False"
| "Comparable map_type = False"
| "Comparable t = True"

text \<open>
  \<^verbatim>\<open>criteria == existing\<close> on two interfaces of the same comparable dynamic type: equality
  of the values, which for \<^verbatim>\<open>float64\<close> is the IEEE 754 one (a NaN differs from everything,
  the two zeros are equal).
\<close>

definition isNaN :: "64 word \<Rightarrow> bool" where
  "isNaN w = (w AND 0x7FF0000000000000 = 0x7FF0000000000000 \<and> w AND 0x000FFFFFFFFFFFFF \<noteq> 0)"

definition float64_eq :: "64 word \<Rightarrow> 64 word \<Rightarrow> bool" where
  "float64_eq a b = (\<not> isNaN a \<and> \<not> isNaN b
     \<and> (a = b \<or> (a AND 0x7FFFFFFFFFFFFFFF = 0 \<and> b AND 0x7FFFFFFFFFFFFFFF = 0)))"

fun interface_eq :: "val \<Rightarrow> val \<Rightarrow> bool" where
  "interface_eq VNil VNil = True"
| "interface_eq (VBool a) (VBool b) = (a = b)"
| "interface_eq (VInt a) (VInt b) = (a = b)"
| "interface_eq (VFloat64 a) (VFloat64 b) = float64_eq a b"
| "interface_eq (VString a) (VString b) = (a = b)"
| "interface_eq (VJsonNumber a) (VJsonNumber b) = (a = b)"
| "interface_eq a b = False"

text \<open>
  \<^verbatim>\<open>
  func InterfaceEquals(criteria interface{}, existing interface{}) bool {
      if criteria == nil {
          if existing == nil { return true } else {
              existingKind := reflect.TypeOf(existing).Kind()
              if existingKind == reflect.Map || existingKind == reflect.Array ||
                 existingKind == reflect.Slice { return true }
              return false
          }
      } else {
          if existing == nil { return false }
      }
      cType := reflect.TypeOf(criteria)
      eType := reflect.TypeOf(existing)
      if cType == eType && cType.Comparable() {
          if criteria == existing { return true }
          return TimeCompare(criteria, existing)
      }
      cKind := cType.Kind()
      eKind := eType.Kind()
      if cKind == reflect.Array || cKind == reflect.Slice {
          if eKind == reflect.Array || eKind == reflect.Slice { return true }
          return false
      }
      if cKind == reflect.Map {
          if eKind != reflect.Map { return false }
          cm, ok := criteria.(map[string]interface{});  if !ok { return false }
          em, ok := existing.(map[string]interface{});  if !ok { return false }
          for k, v := range cm {
              if !InterfaceEquals(v, em[k]) { return false }
          }
          return true
      }
      if eKind == reflect.String && (cKind == reflect.Int || cKind == reflect.Float32 ||
                                     cKind == reflect.Float64) {
          return reflect.TypeOf(existing).String() == "json.Number"
      }
      cJson, _ := json.Marshal(criteria)
      eJson, _ := json.Marshal(existing)
      return string(cJson) == string(eJson)
  }
  \<close>
  \<open>InterfaceEquals_range\<close> is the loop over the entries of \<open>cm\<close>.
\<close>

function InterfaceEquals :: "golib \<Rightarrow> val \<Rightarrow> val \<Rightarrow> bool"
  and InterfaceEquals_range :: "golib \<Rightarrow> (string \<times> val) list \<Rightarrow> gomap \<Rightarrow> bool"
where
  "InterfaceEquals L criteria existing =
     (if criteria = VNil then
        (if existing = VNil then True
         else (let existingKind = Kind (TypeOf existing) in
               if existingKind = reflect_Map \<or> existingKind = reflect_Array
                    \<or> existingKind = reflect_Slice
               then True else False))
      else if existing = VNil then False
      else
        (let cType = TypeOf criteria; eType = TypeOf existing in
         if cType = eType \<and> Comparable cType then
           (if interface_eq criteria existing then True
            else TimeCompare L criteria existing)
         else
           (let cKind = Kind cType; eKind = Kind eType in
            if cKind = reflect_Array \<or> cKind = reflect_Slice then
              (if eKind = reflect_Array \<or> eKind = reflect_Slice then True else False)
            else if cKind = reflect_Map then
              (if eKind \<noteq> reflect_Map then False
               else (case criteria of
                       VMap cm \<Rightarrow>
                         (case existing of
                            VMap em \<Rightarrow> InterfaceEquals_range L (entries cm) em
                          | _ \<Rightarrow> False)
                     | _ \<Rightarrow> False))
            else if eKind = reflect_String
                      \<and> (cKind = reflect_Int \<or> cKind = reflect_Float32 \<or> cKind = reflect_Float64)
            then eType = json_Number_type
            else (let cJson = json_Marshal L criteria; eJson = json_Marshal L existing
                  in string_of_bytes cJson = string_of_bytes eJson))))"
| "InterfaceEquals_range L [] em = True"
| "InterfaceEquals_range L ((k, v) # rest) em =
     (if \<not> InterfaceEquals L v (index em k) then False
      else InterfaceEquals_range L rest em)"
  by pat_completeness auto
termination
  by (relation "measure (\<lambda>x. case x of
        Inl (L, criteria, existing) \<Rightarrow> Suc (size criteria)
      | Inr (L, cm, em) \<Rightarrow> size (VMap (Some cm)))")
    (auto simp: entries_def split: option.splits)

declare InterfaceEquals.simps [simp del]

section \<open>The tree walker: \<open>IterateMapsInInterface\<close> and \<open>IterateFieldsInInterface\<close>\<close>

text \<open>
  \<^verbatim>\<open>
  func IterateMapsInInterface(in interface{}, callback MapIterFunc) error {
      if inMap, _ := in.(map[string]interface{}); inMap != nil {
          err := callback(inMap)
          if err != nil { return err }
          for _, v := range inMap {
              err := IterateMapsInInterface(v, callback)
              if err != nil { return err }
          }
          return nil
      }
      if inArray, _ := in.([]interface{}); inArray != nil {
          for _, v := range inArray {
              err := IterateMapsInInterface(v, callback)
              if err != nil { return err }
          }
          return nil
      }
      return nil
  }
  \<close>
  A callback is a closure: it returns an error (\<open>Some err\<close>) or nil (\<open>None\<close>) and may
  change what it has captured. The model gives it a state \<open>'s\<close> of its own, which it
  takes and returns; the walker threads that state through the calls in the order in
  which it makes them. The callback does not change the tree it is shown. The type \<open>'e\<close>
  of the errors is left open.
\<close>

fun IterateMapsInInterface ::
    "val \<Rightarrow> ((string \<times> val) list \<Rightarrow> 's \<Rightarrow> 'e option \<times> 's) \<Rightarrow> 's \<Rightarrow> 'e option \<times> 's"
  and IterateMaps_range_map ::
    "(string \<times> val) list \<Rightarrow> ((string \<times> val) list \<Rightarrow> 's \<Rightarrow> 'e option \<times> 's) \<Rightarrow> 's
       \<Rightarrow> 'e option \<times> 's"
  and IterateMaps_range_array ::
    "val list \<Rightarrow> ((string \<times> val) list \<Rightarrow> 's \<Rightarrow> 'e option \<times> 's) \<Rightarrow> 's \<Rightarrow> 'e option \<times> 's"
where
  "IterateMapsInInterface (VMap (Some inMap)) callback s =
     (case callback inMap s of
        (Some err, s') \<Rightarrow> (Some err, s')
      | (None, s') \<Rightarrow> IterateMaps_range_map inMap callback s')"
| "IterateMapsInInterface (VSlice (Some inArray)) callback s =
     IterateMaps_range_array inArray callback s"
| "IterateMapsInInterface (VMap None) callback s = (None, s)"
| "IterateMapsInInterface (VSlice None) callback s = (None, s)"
| "IterateMapsInInterface VNil callback s = (None, s)"
| "IterateMapsInInterface (VBool b) callback s = (None, s)"
| "IterateMapsInInterface (VInt i) callback s = (None, s)"
| "IterateMapsInInterface (VFloat64 f) callback s = (None, s)"
| "IterateMapsInInterface (VString x) callback s = (None, s)"
| "IterateMapsInInterface (VJsonNumber n) callback s = (None, s)"
| "IterateMaps_range_map [] callback s = (None, s)"
| "IterateMaps_range_map ((k, v) # rest) callback s =
     (case IterateMapsInInterface v callback s of
        (Some err, s') \<Rightarrow> (Some err, s')
      | (None, s') \<Rightarrow> IterateMaps_range_map rest callback s')"
| "IterateMaps_range_array [] callback s = (None, s)"
| "IterateMaps_range_array (v # rest) callback s =
     (case IterateMapsInInterface v callback s of
        (Some err, s') \<Rightarrow> (Some err, s')
      | (None, s') \<Rightarrow> IterateMaps_range_array rest callback s')"

text \<open>
  \<^verbatim>\<open>
  func IterateFieldsInInterface(in interface{}, callback FieldIterFunc) error {
      mapCallback := func(m map[string]interface{}) error {
          for k, v := range m {
              err := callback(k, v)
              if err != nil { return err }
          }
          return nil
      }
      return IterateMapsInInterface(in, mapCallback)
  }
  \<close>
\<close>

fun mapCallback ::
    "(string \<Rightarrow> val \<Rightarrow> 's \<Rightarrow> 'e option \<times> 's) \<Rightarrow> (string \<times> val) list \<Rightarrow> 's \<Rightarrow> 'e option \<times> 's" where
  "mapCallback callback [] s = (None, s)"
| "mapCallback callback ((k, v) # m) s =
     (case callback k v s of
        (Some err, s') \<Rightarrow> (Some err, s')
      | (None, s') \<Rightarrow> mapCallback callback m s')"

definition IterateFieldsInInterface ::
    "val \<Rightarrow> (string \<Rightarrow> val \<Rightarrow> 's \<Rightarrow> 'e option \<times> 's) \<Rightarrow> 's \<Rightarrow> 'e option \<times> 's" where
  "IterateFieldsInInterface inp callback s = IterateMapsInInterface inp (mapCallback callback) s"

section \<open>Notions used to state the properties of the matcher and the walker\<close>

text \<open>Two times are the same instant when their seconds and nanoseconds agree, whatever
  their locations (what the method \<^verbatim>\<open>Equal\<close> of \<^verbatim>\<open>time.Time\<close> compares).\<close>

definition same_instant :: "Time \<Rightarrow> Time \<Rightarrow> bool" where
  "same_instant t u = (sec t = sec u \<and> nsec t = nsec u)"

text \<open>
  The non-nil maps of a tree in depth-first order, a map before the maps below it and the
  entries of a container from first to last.
\<close>

fun maps_depth_first :: "val \<Rightarrow> (string \<times> val) list list"
  and maps_depth_first_fields :: "(string \<times> val) list \<Rightarrow> (string \<times> val) list list"
  and maps_depth_first_elems :: "val list \<Rightarrow> (string \<times> val) list list"
where
  "maps_depth_first (VMap (Some m)) = m # maps_depth_first_fields m"
| "maps_depth_first (VSlice (Some a)) = maps_depth_first_elems a"
| "maps_depth_first (VMap None) = []"
| "maps_depth_first (VSlice None) = []"
| "maps_depth_first VNil = []"
| "maps_depth_first (VBool b) = []"
| "maps_depth_first (VInt i) = []"
| "maps_depth_first (VFloat64 f) = []"
| "maps_depth_first (VString s) = []"
| "maps_depth_first (VJsonNumber n) = []"
| "maps_depth_first_fields [] = []"
| "maps_depth_first_fields ((k, v) # rest) = maps_depth_first v @ maps_depth_first_fields rest"
| "maps_depth_first_elems [] = []"
| "maps_depth_first_elems (v # rest) = maps_depth_first v @ maps_depth_first_elems rest"

text \<open>
  The order the specification describes. The maps of a tree at nesting level \<open>n\<close>, from
  first to last: the root map is at level 0, a map reached from a map of level \<open>n\<close>
  through one of its values is at level \<open>n + 1\<close>, and a slice is transparent, its elements
  being at the level of the slice.
\<close>

fun maps_at_level :: "nat \<Rightarrow> val \<Rightarrow> (string \<times> val) list list"
  and maps_at_level_fields :: "nat \<Rightarrow> (string \<times> val) list \<Rightarrow> (string \<times> val) list list"
  and maps_at_level_elems :: "nat \<Rightarrow> val list \<Rightarrow> (string \<times> val) list list"
where
  "maps_at_level 0 (VMap (Some m)) = [m]"
| "maps_at_level (Suc n) (VMap (Some m)) = maps_at_level_fields n m"
| "maps_at_level n (VSlice (Some a)) = maps_at_level_elems n a"
| "maps_at_level n (VMap None) = []"
| "maps_at_level n (VSlice None) = []"
| "maps_at_level n VNil = []"
| "maps_at_level n (VBool b) = []"
| "maps_at_level n (VInt i) = []"
| "maps_at_level n (VFloat64 f) = []"
| "maps_at_level n (VString s) = []"
| "maps_at_level n (VJsonNumber x) = []"
| "maps_at_level_fields n [] = []"
| "maps_at_level_fields n ((k, v) # rest) = maps_at_level n v @ maps_at_level_fields n rest"
| "maps_at_level_elems n [] = []"
| "maps_at_level_elems n (v # rest) = maps_at_level n v @ maps_at_level_elems n rest"

text \<open>The number of levels of maps in a tree.\<close>

fun levels :: "val \<Rightarrow> nat"
  and levels_fields :: "(string \<times> val) list \<Rightarrow> nat"
  and levels_elems :: "val list \<Rightarrow> nat"
where
  "levels (VMap (Some m)) = Suc (levels_fields m)"
| "levels (VSlice (Some a)) = levels_elems a"
| "levels (VMap None) = 0"
| "levels (VSlice None) = 0"
| "levels VNil = 0"
| "levels (VBool b) = 0"
| "levels (VInt i) = 0"
| "levels (VFloat64 f) = 0"
| "levels (VString s) = 0"
| "levels (VJsonNumber x) = 0"
| "levels_fields [] = 0"
| "levels_fields ((k, v) # rest) = max (levels v) (levels_fields rest)"
| "levels_elems [] = 0"
| "levels_elems (v # rest) = max (levels v) (levels_elems rest)"

text \<open>Breadth-first level order: the maps of level 0, then those of level 1, and so on.\<close>

definition level_order :: "val \<Rightarrow> (string \<times> val) list list" where
  "level_order v = concat (map (\<lambda>n. maps_at_level n v) [0..<levels v])"

text \<open>
  Calling \<open>visit\<close> on the elements of a list from first to last, each call starting in the
  state the one before left, up to and including the first call that returns an error:
  the result is that error, or nil after the last call, and the state after the last call
  made.
\<close>

fun visit_in_order :: "('a \<Rightarrow> 's \<Rightarrow> 'e option \<times> 's) \<Rightarrow> 'a list \<Rightarrow> 's \<Rightarrow> 'e option \<times> 's" where
  "visit_in_order visit [] s = (None, s)"
| "visit_in_order visit (x # xs) s =
     (case visit x s of
        (Some err, s') \<Rightarrow> (Some err, s')
      | (None, s') \<Rightarrow> visit_in_order visit xs s')"

text \<open>A callback that never fails and appends the map it is shown to a log.\<close>

definition record_visit :: "(string \<times> val) list \<Rightarrow> (string \<times> val) list list
    \<Rightarrow> unit option \<times> (string \<times> val) list list" where
  "record_visit m log = (None, log @ [m])"

text \<open>A callback that logs like \<open>record_visit\<close> and fails, with the error \<open>e\<close>, on the
  map \<open>bad\<close>; and the same for fields, failing on the key \<open>bad\<close>.\<close>

definition record_visit_failing :: "(string \<times> val) list \<Rightarrow> string \<Rightarrow> (string \<times> val) list
    \<Rightarrow> (string \<times> val) list list \<Rightarrow> string option \<times> (string \<times> val) list list" where
  "record_visit_failing bad e m log = (if m = bad then Some e else None, log @ [m])"

definition record_field_failing :: "string \<Rightarrow> string \<Rightarrow> string \<Rightarrow> val
    \<Rightarrow> string list \<Rightarrow> string option \<times> string list" where
  "record_field_failing bad e k v log = (if k = bad then Some e else None, log @ [k])"

section \<open>An instance of the library, to evaluate the matcher on examples\<close>

text \<open>
  \<open>example_lib\<close> gives the library functions on the few arguments the examples below
  use. \<^verbatim>\<open>time.Parse\<close> reads \<^verbatim>\<open>2022-01-01T12:00:00Z\<close> as the instant 1641038400 s after the
  Unix epoch with the nil location (UTC), and \<^verbatim>\<open>2022-01-01T13:00:00+01:00\<close> as the same
  instant with a non-nil location: for an offset other than \<^verbatim>\<open>Z\<close> it attaches either
  \<^verbatim>\<open>Local\<close> or a fixed zone of that offset, never the nil pointer. \<^verbatim>\<open>json.Marshal\<close> writes
  nil as \<^verbatim>\<open>null\<close>, a \<^verbatim>\<open>bool\<close> as \<^verbatim>\<open>true\<close> or \<^verbatim>\<open>false\<close>, an \<^verbatim>\<open>int\<close> in decimal, a \<^verbatim>\<open>string\<close>
  between double quotes (exact when no character needs an escape) and a \<^verbatim>\<open>json.Number\<close> as
  its own text (\<^verbatim>\<open>0\<close> for the empty one; exact for a number literal); the instance renders
  these scalars only.
\<close>

definition example_Parse :: "string \<Rightarrow> Time option" where
  "example_Parse s =
     (if s = ''2022-01-01T12:00:00Z'' then Some \<lparr>sec = 1641038400, nsec = 0, loc = None\<rparr>
      else if s = ''2022-01-01T13:00:00+01:00''
        then Some \<lparr>sec = 1641038400, nsec = 0, loc = Some 1\<rparr>
      else None)"

definition example_offset :: "Time \<Rightarrow> int" where
  "example_offset t = (case loc t of None \<Rightarrow> 0 | Some p \<Rightarrow> 3600)"

definition example_Marshal :: "val \<Rightarrow> string option" where
  "example_Marshal v =
     (case v of
        VNil \<Rightarrow> Some ''null''
      | VBool b \<Rightarrow> Some (if b then ''true'' else ''false'')
      | VInt i \<Rightarrow> Some (Sprintf_d i)
      | VString s \<Rightarrow> Some ([CHR 0x22] @ s @ [CHR 0x22])
      | VJsonNumber n \<Rightarrow> Some (if n = [] then ''0'' else n)
      | _ \<Rightarrow> None)"

definition example_lib :: golib where
  "example_lib =
     \<lparr>time_Parse = example_Parse,
      Second = (\<lambda>t. (sec t + example_offset t) mod 60),
      Minute = (\<lambda>t. ((sec t + example_offset t) div 60) mod 60),
      json_Marshal = example_Marshal\<rparr>"

section \<open>Notions used to state the properties of copy and merge\<close>

text \<open>
  A tree is well formed when every map in it, at any depth, has distinct keys, as every
  Go map has.
\<close>

fun unique_keys :: "val \<Rightarrow> bool"
  and unique_keys_fields :: "(string \<times> val) list \<Rightarrow> bool"
  and unique_keys_elems :: "val list \<Rightarrow> bool"
where
  "unique_keys (VMap None) = True"
| "unique_keys (VMap (Some m)) = (distinct (map fst m) \<and> unique_keys_fields m)"
| "unique_keys (VSlice None) = True"
| "unique_keys (VSlice (Some a)) = unique_keys_elems a"
| "unique_keys VNil = True"
| "unique_keys (VBool b) = True"
| "unique_keys (VInt i) = True"
| "unique_keys (VFloat64 f) = True"
| "unique_keys (VString s) = True"
| "unique_keys (VJsonNumber n) = True"
| "unique_keys_fields [] = True"
| "unique_keys_fields ((k, v) # rest) = (unique_keys v \<and> unique_keys_fields rest)"
| "unique_keys_elems [] = True"
| "unique_keys_elems (v # rest) = (unique_keys v \<and> unique_keys_elems rest)"

text \<open>
  The tree \<open>v\<close> with every empty container, the root or a nested one, replaced by the
  absent (nil) container of its type, and nothing else changed.
\<close>

fun absent_empties :: "val \<Rightarrow> val"
  and absent_empties_fields :: "(string \<times> val) list \<Rightarrow> (string \<times> val) list"
  and absent_empties_elems :: "val list \<Rightarrow> val list"
where
  "absent_empties (VMap None) = VMap None"
| "absent_empties (VMap (Some m)) =
     (if m = [] then VMap None else VMap (Some (absent_empties_fields m)))"
| "absent_empties (VSlice None) = VSlice None"
| "absent_empties (VSlice (Some a)) =
     (if a = [] then VSlice None else VSlice (Some (absent_empties_elems a)))"
| "absent_empties VNil = VNil"
| "absent_empties (VBool b) = VBool b"
| "absent_empties (VInt i) = VInt i"
| "absent_empties (VFloat64 f) = VFloat64 f"
| "absent_empties (VString s) = VString s"
| "absent_empties (VJsonNumber n) = VJsonNumber n"
| "absent_empties_fields [] = []"
| "absent_empties_fields ((k, v) # rest) = (k, absent_empties v) # absent_empties_fields rest"
| "absent_empties_elems [] = []"
| "absent_empties_elems (v # rest) = absent_empties v # absent_empties_elems rest"


section \<open>Properties of the merge functions\<close>

lemma MapCopy_len0: "len src = 0 \<Longrightarrow> MapCopy src = None"
  by (cases src) (simp_all add: len_def)

lemma index_ok_keys: "k \<in> keys m \<longleftrightarrow> index_ok m k \<noteq> None"
  by (simp add: keys_def index_ok_def map_of_eq_None_iff)

lemma index_ok_len0: "len m = 0 \<Longrightarrow> index_ok m k = None"
  by (cases m) (simp_all add: len_def index_ok_def entries_def)

text \<open>
  Claim C10. When \<open>dst\<close> and \<open>src\<close> are both empty (of length 0, nil or allocated),
  \<open>MapCombine\<close> and \<open>MapAdd\<close> return the nil map, the absent value of \<open>MapCopy\<close>, and
  not the empty \<open>dst\<close>: the test \<open>len(dst) == 0\<close> comes first.
\<close>

theorem MapCombine_MapAdd_both_empty:
  "len dst = 0 \<Longrightarrow> len src = 0 \<Longrightarrow> MapCombine dst src = None \<and> MapAdd dst src = None"
  by (simp add: MapCombine_def MapAdd_def MapCopy_len0)

theorem MapCombine_MapAdd_both_empty_witness:
  "len (Some [] :: gomap) = 0 \<and> MapCombine (Some []) (Some []) = None
     \<and> MapAdd (Some []) (Some []) = None \<and> (Some [] :: gomap) \<noteq> None"
  using MapCombine_MapAdd_both_empty [of "Some []" "Some []"] by (simp add: len_def)

lemma map_of_MapReplace_range:
  "map_of (MapReplace_range ks src d) k =
     (if k \<in> set ks \<and> index_ok src k \<noteq> None then index_ok src k else map_of d k)"
  by (induction ks arbitrary: d) (auto simp: update_conv' split: option.splits)

lemma keys_MapReplace_range:
  "set ks \<subseteq> fst ` set d \<Longrightarrow> fst ` set (MapReplace_range ks src d) = fst ` set d"
proof (induction ks arbitrary: d)
  case Nil
  then show ?case by simp
next
  case (Cons k rest)
  let ?d' = "case index_ok src k of Some v \<Rightarrow> AList.update k v d | None \<Rightarrow> d"
  have k: "k \<in> fst ` set d" using Cons.prems by simp
  then have d': "fst ` set ?d' = fst ` set d"
    by (auto simp: dom_update split: option.splits)
  with Cons.prems have "set rest \<subseteq> fst ` set ?d'" by simp
  from Cons.IH [OF this] d' show ?case by simp
qed

lemma index_ok_MapReplace:
  "index_ok (MapReplace dst src) k =
     (if k \<in> keys dst \<and> k \<in> keys src then index_ok src k else index_ok dst k)"
proof (cases dst)
  case None
  then show ?thesis by (simp add: MapReplace_def keys_def entries_def)
next
  case (Some d)
  have dk: "k \<in> set (map fst d) \<longleftrightarrow> k \<in> keys dst"
    using Some by (simp add: keys_def entries_def)
  show ?thesis
  proof (cases "len src = 0")
    case True
    then show ?thesis by (simp add: MapReplace_def index_ok_keys index_ok_len0)
  next
    case False
    with Some have "index_ok (MapReplace dst src) k = map_of (MapReplace_range (map fst d) src d) k"
      by (simp add: MapReplace_def index_ok_def entries_def)
    also have "\<dots> = (if k \<in> keys dst \<and> index_ok src k \<noteq> None then index_ok src k else map_of d k)"
      unfolding map_of_MapReplace_range dk ..
    also have "\<dots> = (if k \<in> keys dst \<and> k \<in> keys src then index_ok src k else index_ok dst k)"
      using Some by (simp add: index_ok_keys) (simp add: index_ok_def entries_def)
    finally show ?thesis .
  qed
qed

lemma keys_MapReplace: "keys (MapReplace dst src) = keys dst"
  by (cases dst) (simp_all add: MapReplace_def keys_def entries_def keys_MapReplace_range)

text \<open>
  Claim C8. \<open>MapReplace dst src\<close> has, at every key \<open>k\<close>, the entry of \<open>src\<close> when \<open>k\<close>
  is a key of both maps and the entry of \<open>dst\<close> otherwise (\<open>index_ok\<close> is the lookup with
  its \<open>ok\<close> flag, \<open>None\<close> for a missing key); its key set is the key set of \<open>dst\<close>; and
  \<open>Replace({"a":1,"b":2}, {"b":9,"c":9}) = {"a":1,"b":9}\<close>.
\<close>

theorem MapReplace_updates_common_keys_only:
  "index_ok (MapReplace dst src) k =
     (if k \<in> keys dst \<and> k \<in> keys src then index_ok src k else index_ok dst k)
   \<and> keys (MapReplace dst src) = keys dst
   \<and> MapReplace (Some [(''a'', VInt 1), (''b'', VInt 2)]) (Some [(''b'', VInt 9), (''c'', VInt 9)])
       = Some [(''a'', VInt 1), (''b'', VInt 9)]"
proof -
  have "MapReplace (Some [(''a'', VInt 1), (''b'', VInt 2)]) (Some [(''b'', VInt 9), (''c'', VInt 9)])
       = Some [(''a'', VInt 1), (''b'', VInt 9)]"
    by (simp add: MapReplace_def len_def index_ok_def entries_def)
  then show ?thesis
    using index_ok_MapReplace [of dst src k] keys_MapReplace [of dst src] by blast
qed

lemma map_of_MapCombine_range:
  "distinct (map fst src) \<Longrightarrow>
   map_of (MapCombine_range src d) k = (case map_of src k of Some v \<Rightarrow> Some v | None \<Rightarrow> map_of d k)"
proof (induction src arbitrary: d)
  case Nil
  then show ?case by simp
next
  case (Cons p rest)
  obtain k0 v0 where p: "p = (k0, v0)" by (cases p)
  from Cons.prems p have d: "distinct (map fst rest)" and n: "map_of rest k0 = None"
    by (auto simp: map_of_eq_None_iff)
  show ?case
    using Cons.IH [OF d, of "AList.update k0 v0 d"] n
    by (auto simp: p update_conv' split: option.splits)
qed

lemma index_ok_MapCombine:
  assumes "len dst \<noteq> 0" "distinct (map fst (entries src))"
  shows "index_ok (MapCombine dst src) k = (if k \<in> keys src then index_ok src k else index_ok dst k)"
proof (cases "len src = 0")
  case True
  with assms show ?thesis by (simp add: MapCombine_def index_ok_keys index_ok_len0)
next
  case False
  from assms(1) obtain d where d: "dst = Some d" by (cases dst) (auto simp: len_def)
  show ?thesis
    using assms False d
    by (force simp: MapCombine_def index_ok_def entries_def keys_def map_of_MapCombine_range
        map_of_eq_None_iff split: option.splits)
qed

text \<open>
  Claim C7, as stated, fails where \<open>dst\<close> is empty: the result is then the deep copy of
  \<open>src\<close>, so for an empty \<open>src\<close> it is the nil map and not the empty \<open>dst\<close>, and an
  entry of \<open>src\<close> that is an empty container arrives as an absent one, not as \<open>src[k]\<close>.
\<close>

theorem MapCombine_empty_dst_counterexample:
  "MapCombine (Some []) (Some []) = None
   \<and> MapCombine (Some []) (Some []) \<noteq> Some []
   \<and> index_ok (MapCombine (Some []) (Some [(''a'', VMap (Some []))])) ''a'' = Some (VMap None)
   \<and> index_ok (Some [(''a'', VMap (Some []))]) ''a'' = Some (VMap (Some []))"
  by (simp add: MapCombine_def len_def index_ok_def entries_def)

text \<open>
  Claim C7, amended. For a non-empty \<open>dst\<close>, \<open>MapCombine dst src\<close> has at every key of
  \<open>src\<close> the entry of \<open>src\<close> and at every other key the entry of \<open>dst\<close> (the keys of the
  Go map \<open>src\<close> being distinct), and it is \<open>dst\<close> unchanged when \<open>src\<close> is empty; for an
  empty \<open>dst\<close> the result is \<open>MapCopy src\<close>.
\<close>

theorem MapCombine_src_wins:
  "(len dst \<noteq> 0 \<and> distinct (map fst (entries src)) \<longrightarrow>
      index_ok (MapCombine dst src) k = (if k \<in> keys src then index_ok src k else index_ok dst k))
   \<and> (len dst = 0 \<longrightarrow> MapCombine dst src = MapCopy src)
   \<and> (len dst \<noteq> 0 \<and> len src = 0 \<longrightarrow> MapCombine dst src = dst)"
  using index_ok_MapCombine [of dst src k] by (simp add: MapCombine_def)

theorem MapCombine_src_wins_witness:
  "index_ok (MapCombine (Some [(''a'', VInt 1), (''b'', VInt 2)]) (Some [(''b'', VInt 9), (''c'', VInt 9)])) ''b'' = Some (VInt 9)
   \<and> index_ok (MapCombine (Some [(''a'', VInt 1), (''b'', VInt 2)]) (Some [(''b'', VInt 9), (''c'', VInt 9)])) ''a'' = Some (VInt 1)
   \<and> MapCombine None (Some [(''b'', VInt 9)]) = MapCopy (Some [(''b'', VInt 9)])
   \<and> MapCombine (Some [(''a'', VInt 1)]) (Some []) = Some [(''a'', VInt 1)]"
  using MapCombine_src_wins [of "Some [(''a'', VInt 1), (''b'', VInt 2)]" "Some [(''b'', VInt 9), (''c'', VInt 9)]" "''b''"]
    MapCombine_src_wins [of "Some [(''a'', VInt 1), (''b'', VInt 2)]" "Some [(''b'', VInt 9), (''c'', VInt 9)]" "''a''"]
    MapCombine_src_wins [of None "Some [(''b'', VInt 9)]"]
    MapCombine_src_wins [of "Some [(''a'', VInt 1)]" "Some []"]
  by (simp add: len_def entries_def keys_def index_ok_def)

section \<open>Properties of the copy\<close>

lemma update_fresh: "k \<notin> fst ` set dst \<Longrightarrow> AList.update k v dst = dst @ [(k, v)]"
  by (induction dst) auto

lemma copy_is_absent_empties_all:
  "(unique_keys (VMap m) \<longrightarrow> VMap (MapCopy m) = absent_empties (VMap m))"
  "(unique_keys_fields src \<and> distinct (map fst src) \<and> fst ` set src \<inter> fst ` set dst = {}
      \<longrightarrow> MapCopy_range src dst = dst @ absent_empties_fields src)"
  "(unique_keys (VSlice a) \<longrightarrow> VSlice (ArrayCopy a) = absent_empties (VSlice a))"
  "(unique_keys_elems src' \<longrightarrow> ArrayCopy_range src' dst' = dst' @ absent_empties_elems src')"
  "(unique_keys v \<longrightarrow> copy_value v = absent_empties v)"
proof (induction m and src dst and a and src' dst' and v
    rule: MapCopy_MapCopy_range_ArrayCopy_ArrayCopy_range_copy_value.induct)
  case (4 k v rest dst)
  show ?case
  proof (intro impI, elim conjE)
    assume u: "unique_keys_fields ((k, v) # rest)" and d: "distinct (map fst ((k, v) # rest))"
      and i: "fst ` set ((k, v) # rest) \<inter> fst ` set dst = {}"
    have kd: "k \<notin> fst ` set dst" using i by auto
    have cv: "copy_value v = absent_empties v" using u "4.IH"(1) by simp
    have up: "AList.update k (copy_value v) dst = dst @ [(k, absent_empties v)]"
      using kd cv by (simp add: update_fresh)
    have "fst ` set rest \<inter> fst ` set (dst @ [(k, absent_empties v)]) = {}"
      using i d by auto
    with u d "4.IH"(2) up
    have "MapCopy_range rest (AList.update k (copy_value v) dst)
            = (dst @ [(k, absent_empties v)]) @ absent_empties_fields rest"
      by simp
    then show "MapCopy_range ((k, v) # rest) dst = dst @ absent_empties_fields ((k, v) # rest)"
      by simp
  qed
qed auto

text \<open>
  Claim C6, as stated, fails on a non-empty container that holds an empty one: the copy of
  \<open>{"a": {}}\<close> is \<open>{"a": nil}\<close>, which is not structurally equal to the input although the
  input is not an empty container.
\<close>

theorem copy_value_nested_empty_counterexample:
  "copy_value (VMap (Some [(''a'', VMap (Some []))])) = VMap (Some [(''a'', VMap None)])
   \<and> copy_value (VMap (Some [(''a'', VMap (Some []))])) \<noteq> VMap (Some [(''a'', VMap (Some []))])"
  by simp

text \<open>
  Claim C6, amended. The deep copy of a tree \<open>v\<close> (the keys of each of its maps distinct)
  is \<open>v\<close> with every empty container, the input itself or one nested at any depth,
  replaced by an absent (nil) one, and is structurally equal to \<open>v\<close> everywhere else;
  scalars are copied by value.
\<close>

theorem copy_value_absent_empties:
  "unique_keys v \<Longrightarrow> copy_value v = absent_empties v"
  using copy_is_absent_empties_all(5) [of v] by simp

theorem copy_value_absent_empties_witness:
  "unique_keys (VMap (Some [(''a'', VSlice (Some [])), (''b'', VSlice (Some [VInt 1, VString ''x'']))]))
   \<and> copy_value (VMap (Some [(''a'', VSlice (Some [])), (''b'', VSlice (Some [VInt 1, VString ''x'']))]))
       = VMap (Some [(''a'', VSlice None), (''b'', VSlice (Some [VInt 1, VString ''x'']))])"
  using copy_value_absent_empties
    [of "VMap (Some [(''a'', VSlice (Some [])), (''b'', VSlice (Some [VInt 1, VString ''x'']))])"]
  by simp

section \<open>Properties of the matcher\<close>

lemma InterfaceEquals_range_all:
  "InterfaceEquals_range L cm em = (\<forall>(k, v) \<in> set cm. InterfaceEquals L v (index em k))"
  by (induction cm) (auto split: if_splits)

lemma InterfaceEquals_VNil:
  "InterfaceEquals L VNil e = (e = VNil \<or> (\<exists>a. e = VSlice a) \<or> (\<exists>m. e = VMap m))"
  by (cases e) (simp_all add: InterfaceEquals.simps)

lemma InterfaceEquals_VMap:
  "InterfaceEquals L (VMap cm) existing =
     (\<exists>em. existing = VMap em \<and> (\<forall>(k, v) \<in> set (entries cm). InterfaceEquals L v (index em k)))"
  by (cases existing)
    (simp_all add: InterfaceEquals.simps [of L "VMap cm"] InterfaceEquals_range_all)

lemma index_of_entry:
  "distinct (map fst (entries cm)) \<Longrightarrow> (k, v) \<in> set (entries cm) \<Longrightarrow> index cm k = v"
  by (simp add: index_def index_ok_def)

lemma entry_of_key: "k \<in> keys cm \<Longrightarrow> distinct (map fst (entries cm)) \<Longrightarrow> (k, index cm k) \<in> set (entries cm)"
  by (auto simp: keys_def index_def index_ok_def)

lemma InterfaceEquals_VInt_VInt: "InterfaceEquals L (VInt i) (VInt j) = (i = j)"
  by (simp add: InterfaceEquals.simps TimeCompare_def)

lemma InterfaceEquals_existing_VNil: "InterfaceEquals L c VNil = (c = VNil)"
  by (simp add: InterfaceEquals.simps)

lemma InterfaceEquals_VMap_keys:
  assumes d: "distinct (map fst (entries cm))"
  shows "InterfaceEquals L (VMap cm) (VMap em) =
          (\<forall>k \<in> keys cm. InterfaceEquals L (index cm k) (index em k))"
proof -
  have "(\<forall>(k, v) \<in> set (entries cm). InterfaceEquals L v (index em k))
      = (\<forall>k \<in> keys cm. InterfaceEquals L (index cm k) (index em k))"
  proof
    assume h: "\<forall>(k, v) \<in> set (entries cm). InterfaceEquals L v (index em k)"
    show "\<forall>k \<in> keys cm. InterfaceEquals L (index cm k) (index em k)"
    proof
      fix k assume "k \<in> keys cm"
      from entry_of_key [OF this d] h show "InterfaceEquals L (index cm k) (index em k)"
        by blast
    qed
  next
    assume h: "\<forall>k \<in> keys cm. InterfaceEquals L (index cm k) (index em k)"
    show "\<forall>(k, v) \<in> set (entries cm). InterfaceEquals L v (index em k)"
    proof (clarify)
      fix k v assume e: "(k, v) \<in> set (entries cm)"
      then have "k \<in> keys cm" by (force simp: keys_def)
      with h have "InterfaceEquals L (index cm k) (index em k)" by blast
      with index_of_entry [OF d e] show "InterfaceEquals L v (index em k)" by simp
    qed
  qed
  then show ?thesis by (simp add: InterfaceEquals_VMap)
qed

lemma InterfaceEquals_VMap_agree:
  assumes h: "\<forall>k \<in> keys cm. index em k = index em' k"
  shows "InterfaceEquals L (VMap cm) (VMap em) = InterfaceEquals L (VMap cm) (VMap em')"
proof -
  have i: "\<And>k v. (k, v) \<in> set (entries cm) \<Longrightarrow> index em k = index em' k"
    using h by (force simp: keys_def)
  have "(\<forall>(k, v) \<in> set (entries cm). InterfaceEquals L v (index em k))
      = (\<forall>(k, v) \<in> set (entries cm). InterfaceEquals L v (index em' k))"
  proof
    assume a: "\<forall>(k, v) \<in> set (entries cm). InterfaceEquals L v (index em k)"
    show "\<forall>(k, v) \<in> set (entries cm). InterfaceEquals L v (index em' k)"
    proof (clarify)
      fix k v assume e: "(k, v) \<in> set (entries cm)"
      with a have "InterfaceEquals L v (index em k)" by blast
      with i [OF e] show "InterfaceEquals L v (index em' k)" by simp
    qed
  next
    assume a: "\<forall>(k, v) \<in> set (entries cm). InterfaceEquals L v (index em' k)"
    show "\<forall>(k, v) \<in> set (entries cm). InterfaceEquals L v (index em k)"
    proof (clarify)
      fix k v assume e: "(k, v) \<in> set (entries cm)"
      with a have "InterfaceEquals L v (index em' k)" by blast
      with i [OF e] show "InterfaceEquals L v (index em k)" by simp
    qed
  qed
  then show ?thesis by (simp add: InterfaceEquals_VMap)
qed

text \<open>
  Claim C1. With the nil criteria, \<open>InterfaceEquals\<close> is true exactly when \<open>existing\<close> is
  nil, a slice or a map, whatever the container holds, and false on every scalar: a
  \<^verbatim>\<open>bool\<close>, an \<^verbatim>\<open>int\<close>, a \<^verbatim>\<open>float64\<close>, a \<^verbatim>\<open>string\<close>, a \<^verbatim>\<open>json.Number\<close>.
\<close>

theorem InterfaceEquals_nil_criteria:
  "InterfaceEquals L VNil e = (e = VNil \<or> (\<exists>a. e = VSlice a) \<or> (\<exists>m. e = VMap m))
   \<and> InterfaceEquals L VNil (VBool b) = False
   \<and> InterfaceEquals L VNil (VInt i) = False
   \<and> InterfaceEquals L VNil (VFloat64 f) = False
   \<and> InterfaceEquals L VNil (VString x) = False
   \<and> InterfaceEquals L VNil (VJsonNumber n) = False"
  by (simp add: InterfaceEquals_VNil)

theorem InterfaceEquals_nil_criteria_witness:
  "InterfaceEquals example_lib VNil VNil
   \<and> InterfaceEquals example_lib VNil (VMap (Some []))
   \<and> InterfaceEquals example_lib VNil (VSlice (Some []))
   \<and> InterfaceEquals example_lib VNil (VMap (Some [(''a'', VInt 1)]))
   \<and> \<not> InterfaceEquals example_lib VNil (VString ''x'')
   \<and> \<not> InterfaceEquals example_lib VNil (VInt 5)"
  using InterfaceEquals_nil_criteria [of example_lib VNil]
    InterfaceEquals_nil_criteria [of example_lib "VMap (Some [])"]
    InterfaceEquals_nil_criteria [of example_lib "VSlice (Some [])"]
    InterfaceEquals_nil_criteria [of example_lib "VMap (Some [(''a'', VInt 1)])"]
    InterfaceEquals_nil_criteria [of example_lib "VString ''x''"]
    InterfaceEquals_nil_criteria [of example_lib "VInt 5"]
  by simp

text \<open>
  Claim C2. With a map as criteria, \<open>InterfaceEquals\<close> is true exactly when \<open>existing\<close> is
  a map too and every entry \<open>(k, v)\<close> of the criteria matches \<open>existing[k]\<close>, which is nil
  for a missing key; with the distinct keys of a Go map that is: for every key \<open>k\<close> of the
  criteria, \<open>criteria[k]\<close> matches \<open>existing[k]\<close>. Two existing maps that agree on the keys
  of the criteria get the same verdict, so keys of \<open>existing\<close> alone play no part. The two
  examples of the specification are evaluated.
\<close>

theorem InterfaceEquals_map_criteria:
  "InterfaceEquals L (VMap cm) existing =
     (\<exists>em. existing = VMap em \<and> (\<forall>(k, v) \<in> set (entries cm). InterfaceEquals L v (index em k)))
   \<and> (distinct (map fst (entries cm)) \<longrightarrow>
        InterfaceEquals L (VMap cm) (VMap em) =
          (\<forall>k \<in> keys cm. InterfaceEquals L (index cm k) (index em k)))
   \<and> ((\<forall>k \<in> keys cm. index em k = index em' k) \<longrightarrow>
        InterfaceEquals L (VMap cm) (VMap em) = InterfaceEquals L (VMap cm) (VMap em'))
   \<and> InterfaceEquals L (VMap (Some [(''a'', VInt 1)]))
        (VMap (Some [(''a'', VInt 1), (''b'', VInt 2)])) = True
   \<and> InterfaceEquals L (VMap (Some [(''a'', VInt 1), (''c'', VInt 3)]))
        (VMap (Some [(''a'', VInt 1)])) = False"
proof (intro conjI)
  show "InterfaceEquals L (VMap cm) existing =
     (\<exists>em. existing = VMap em \<and> (\<forall>(k, v) \<in> set (entries cm). InterfaceEquals L v (index em k)))"
    by (rule InterfaceEquals_VMap)
next
  show "distinct (map fst (entries cm)) \<longrightarrow>
        InterfaceEquals L (VMap cm) (VMap em) =
          (\<forall>k \<in> keys cm. InterfaceEquals L (index cm k) (index em k))"
    by (rule impI) (rule InterfaceEquals_VMap_keys)
next
  show "(\<forall>k \<in> keys cm. index em k = index em' k) \<longrightarrow>
        InterfaceEquals L (VMap cm) (VMap em) = InterfaceEquals L (VMap cm) (VMap em')"
    by (rule impI) (rule InterfaceEquals_VMap_agree)
next
  show "InterfaceEquals L (VMap (Some [(''a'', VInt 1)]))
        (VMap (Some [(''a'', VInt 1), (''b'', VInt 2)])) = True"
    by (simp add: InterfaceEquals_VMap entries_def index_def index_ok_def InterfaceEquals_VInt_VInt)
next
  show "InterfaceEquals L (VMap (Some [(''a'', VInt 1), (''c'', VInt 3)]))
        (VMap (Some [(''a'', VInt 1)])) = False"
    by (simp add: InterfaceEquals_VMap entries_def index_def index_ok_def InterfaceEquals_VInt_VInt
        InterfaceEquals_existing_VNil)
qed

theorem InterfaceEquals_map_criteria_witness:
  "distinct (map fst (entries (Some [(''a'', VInt 1), (''n'', VNil)])))
   \<and> InterfaceEquals example_lib (VMap (Some [(''a'', VInt 1), (''n'', VNil)]))
        (VMap (Some [(''a'', VInt 1), (''b'', VInt 2)]))
   \<and> InterfaceEquals example_lib (VMap (Some [(''a'', VInt 1), (''n'', VNil)]))
        (VMap (Some [(''z'', VInt 0), (''a'', VInt 1)]))"
proof -
  let ?cm = "Some [(''a'', VInt 1), (''n'', VNil)]"
  let ?em = "Some [(''a'', VInt 1), (''b'', VInt 2)]"
  let ?em' = "Some [(''z'', VInt 0), (''a'', VInt 1)]"
  note t = InterfaceEquals_map_criteria [of example_lib ?cm "VMap ?em" ?em ?em']
  have d: "distinct (map fst (entries ?cm))"
    by (simp add: entries_def)
  have "InterfaceEquals example_lib (VMap ?cm) (VMap ?em) =
          (\<forall>k \<in> keys ?cm. InterfaceEquals example_lib (index ?cm k) (index ?em k))"
    using t [THEN conjunct2, THEN conjunct1] d by (rule mp)
  then have m: "InterfaceEquals example_lib (VMap ?cm) (VMap ?em)"
    by (simp add: entries_def keys_def index_def index_ok_def InterfaceEquals_VInt_VInt
        InterfaceEquals_VNil)
  have "\<forall>k \<in> keys ?cm. index ?em k = index ?em' k"
    by (simp add: entries_def keys_def index_def index_ok_def)
  with t [THEN conjunct2, THEN conjunct2, THEN conjunct1]
  have "InterfaceEquals example_lib (VMap ?cm) (VMap ?em)
      = InterfaceEquals example_lib (VMap ?cm) (VMap ?em')"
    by (rule mp)
  with m d show ?thesis by simp
qed

text \<open>
  Claim C3, as stated, fails: a \<^verbatim>\<open>string\<close> criteria and a \<^verbatim>\<open>json.Number\<close> existing have
  different types and both the kind \<^verbatim>\<open>reflect.String\<close>, so the test on \<open>eKind\<close> and
  \<open>cKind\<close> does not apply and the two JSON texts are compared: \<^verbatim>\<open>"5"\<close> with its quotes
  against \<^verbatim>\<open>5\<close>.
\<close>

theorem InterfaceEquals_string_vs_json_Number_counterexample:
  "\<not> InterfaceEquals example_lib (VString ''5'') (VJsonNumber ''5'')"
  by (simp add: InterfaceEquals.simps example_lib_def example_Marshal_def string_of_bytes_def)

text \<open>
  Claim C3, amended. A criteria that is a number of the program, an \<^verbatim>\<open>int\<close> or a
  \<^verbatim>\<open>float64\<close>, matches every existing \<^verbatim>\<open>json.Number\<close>, the number kept as its source text.
\<close>

theorem InterfaceEquals_number_vs_json_Number:
  "InterfaceEquals L (VInt i) (VJsonNumber n) = True
   \<and> InterfaceEquals L (VFloat64 f) (VJsonNumber n) = True"
  by (simp add: InterfaceEquals.simps)

theorem InterfaceEquals_number_vs_json_Number_witness:
  "InterfaceEquals example_lib (VInt 5) (VJsonNumber ''5'')
   \<and> InterfaceEquals example_lib (VFloat64 0x4014000000000000) (VJsonNumber ''5'')"
  using InterfaceEquals_number_vs_json_Number [of example_lib 5 "''5''" "0x4014000000000000"]
  by simp

section \<open>Properties of the time comparison\<close>

lemma TimeCompare_both_parse:
  "time_Parse L a = Some t1 \<Longrightarrow> time_Parse L b = Some t2 \<Longrightarrow>
   TimeCompare L (VString a) (VString b) = (same_instant t1 t2 \<and> loc t1 = loc t2)"
  by (cases t1; cases t2) (auto simp add: TimeCompare_def Let_def same_instant_def)

lemma TimeCompare_neither_parses:
  "time_Parse L a = None \<Longrightarrow> time_Parse L b = None \<Longrightarrow> \<not> TimeCompare L (VString a) (VString b)"
  by (simp add: TimeCompare_def Let_def)

text \<open>
  Claim C5 at \<^verbatim>\<open>2022-01-01T12:00:00Z\<close> and \<^verbatim>\<open>2022-01-01T13:00:00+01:00\<close>: both strings parse,
  to the same instant, and \<open>TimeCompare\<close> is false, since \<^verbatim>\<open>t1 == t2\<close> compares the
  location pointers as well, nil for the first and non-nil for the second.
\<close>

theorem TimeCompare_same_instant_other_zone:
  "time_Parse example_lib ''2022-01-01T12:00:00Z''
      = Some \<lparr>sec = 1641038400, nsec = 0, loc = None\<rparr>
   \<and> time_Parse example_lib ''2022-01-01T13:00:00+01:00''
      = Some \<lparr>sec = 1641038400, nsec = 0, loc = Some 1\<rparr>
   \<and> same_instant \<lparr>sec = 1641038400, nsec = 0, loc = None\<rparr>
        \<lparr>sec = 1641038400, nsec = 0, loc = Some 1\<rparr>
   \<and> TimeCompare example_lib (VString ''2022-01-01T12:00:00Z'')
        (VString ''2022-01-01T13:00:00+01:00'') = False"
proof -
  have p1: "time_Parse example_lib ''2022-01-01T12:00:00Z''
      = Some \<lparr>sec = 1641038400, nsec = 0, loc = None\<rparr>"
    by (simp add: example_lib_def example_Parse_def)
  have p2: "time_Parse example_lib ''2022-01-01T13:00:00+01:00''
      = Some \<lparr>sec = 1641038400, nsec = 0, loc = Some 1\<rparr>"
    by (simp add: example_lib_def example_Parse_def)
  show ?thesis
    using TimeCompare_both_parse [OF p1 p2] p1 p2 by (simp add: same_instant_def)
qed

section \<open>Properties of the walker\<close>

lemma visit_in_order_append:
  "visit_in_order visit (xs @ ys) s =
     (case visit_in_order visit xs s of
        (Some err, s') \<Rightarrow> (Some err, s')
      | (None, s') \<Rightarrow> visit_in_order visit ys s')"
  by (induction xs arbitrary: s) (auto split: prod.splits option.splits)

lemma Iterate_is_visit_in_order:
  "IterateMapsInInterface v cb s = visit_in_order cb (maps_depth_first v) s"
  "IterateMaps_range_map m cb s = visit_in_order cb (maps_depth_first_fields m) s"
  "IterateMaps_range_array a cb s = visit_in_order cb (maps_depth_first_elems a) s"
  by (induction v cb s and m cb s and a cb s
      rule: IterateMapsInInterface_IterateMaps_range_map_IterateMaps_range_array.induct)
     (auto simp: visit_in_order_append split: prod.splits option.splits)

lemma mapCallback_is_visit_in_order:
  "mapCallback cb m s = visit_in_order (\<lambda>(k, v). cb k v) m s"
  by (induction m arbitrary: s) (auto split: prod.splits option.splits)

lemma visit_in_order_mapCallback:
  "visit_in_order (mapCallback cb) ms s = visit_in_order (\<lambda>(k, v). cb k v) (concat ms) s"
  by (induction ms arbitrary: s)
    (auto simp: visit_in_order_append mapCallback_is_visit_in_order split: prod.splits option.splits)

lemma IterateFields_is_visit_in_order:
  "IterateFieldsInInterface v cb s
     = visit_in_order (\<lambda>(k, x). cb k x) (concat (maps_depth_first v)) s"
  by (simp add: IterateFieldsInInterface_def Iterate_is_visit_in_order visit_in_order_mapCallback)

lemma visit_in_order_first_error:
  "visit_in_order visit before s = (None, s1) \<Longrightarrow> visit x s1 = (Some err, s2) \<Longrightarrow>
   visit_in_order visit (before @ x # after) s = (Some err, s2)"
  by (simp add: visit_in_order_append)

lemma visit_in_order_no_error:
  "(\<forall>x \<in> set xs. \<forall>u. fst (visit x u) = None) \<Longrightarrow> fst (visit_in_order visit xs s) = None"
proof (induction xs arbitrary: s)
  case Nil
  then show ?case by simp
next
  case (Cons x xs)
  obtain r s' where v: "visit x s = (r, s')" by (cases "visit x s")
  from Cons.prems have "fst (visit x s) = None" by simp
  with v have r: "r = None" by simp
  from Cons.prems have "\<forall>y \<in> set xs. \<forall>u. fst (visit y u) = None" by simp
  from Cons.IH [OF this] v r show ?case by simp
qed

text \<open>
  Claim C9. Both walkers call the visit function on the maps (or the fields of the maps)
  of the tree in one fixed order and stop at the first call that returns an error: the
  walker then returns that very error and the state that call left, so nothing is visited
  after it; when no call fails the walker returns nil.
\<close>

theorem walkers_stop_at_first_error:
  "IterateMapsInInterface v visit s = visit_in_order visit (maps_depth_first v) s
   \<and> IterateFieldsInInterface v fvisit t
       = visit_in_order (\<lambda>(k, x). fvisit k x) (concat (maps_depth_first v)) t
   \<and> (maps_depth_first v = before @ m # after \<and> visit_in_order visit before s = (None, s1)
        \<and> visit m s1 = (Some err, s2)
       \<longrightarrow> IterateMapsInInterface v visit s = (Some err, s2))
   \<and> (concat (maps_depth_first v) = fbefore @ (k, x) # fafter
        \<and> visit_in_order (\<lambda>(k, x). fvisit k x) fbefore t = (None, t1)
        \<and> fvisit k x t1 = (Some ferr, t2)
       \<longrightarrow> IterateFieldsInInterface v fvisit t = (Some ferr, t2))
   \<and> ((\<forall>m \<in> set (maps_depth_first v). \<forall>u. fst (visit m u) = None)
       \<longrightarrow> fst (IterateMapsInInterface v visit s) = None)
   \<and> ((\<forall>(k, x) \<in> set (concat (maps_depth_first v)). \<forall>u. fst (fvisit k x u) = None)
       \<longrightarrow> fst (IterateFieldsInInterface v fvisit t) = None)"
proof (intro conjI impI)
  show "IterateMapsInInterface v visit s = visit_in_order visit (maps_depth_first v) s"
    by (rule Iterate_is_visit_in_order)
next
  show "IterateFieldsInInterface v fvisit t
       = visit_in_order (\<lambda>(k, x). fvisit k x) (concat (maps_depth_first v)) t"
    by (rule IterateFields_is_visit_in_order)
next
  assume "maps_depth_first v = before @ m # after \<and> visit_in_order visit before s = (None, s1)
        \<and> visit m s1 = (Some err, s2)"
  then show "IterateMapsInInterface v visit s = (Some err, s2)"
    by (simp add: Iterate_is_visit_in_order visit_in_order_first_error)
next
  assume "concat (maps_depth_first v) = fbefore @ (k, x) # fafter
        \<and> visit_in_order (\<lambda>(k, x). fvisit k x) fbefore t = (None, t1)
        \<and> fvisit k x t1 = (Some ferr, t2)"
  then show "IterateFieldsInInterface v fvisit t = (Some ferr, t2)"
    by (simp add: IterateFields_is_visit_in_order visit_in_order_first_error)
next
  assume "\<forall>m \<in> set (maps_depth_first v). \<forall>u. fst (visit m u) = None"
  then show "fst (IterateMapsInInterface v visit s) = None"
    by (simp only: Iterate_is_visit_in_order visit_in_order_no_error)
next
  assume "\<forall>(k, x) \<in> set (concat (maps_depth_first v)). \<forall>u. fst (fvisit k x u) = None"
  then have "\<forall>p \<in> set (concat (maps_depth_first v)). \<forall>u. fst ((\<lambda>(k, x). fvisit k x) p u) = None"
    by (simp add: case_prod_beta)
  then show "fst (IterateFieldsInInterface v fvisit t) = None"
    by (simp only: IterateFields_is_visit_in_order visit_in_order_no_error)
qed

theorem walkers_stop_at_first_error_witness:
  "IterateMapsInInterface
     (VMap (Some [(''k'', VSlice (Some [VMap (Some [(''a'', VMap (Some [(''b'', VInt 1)]))]),
                                         VMap (Some [(''c'', VInt 2)])]))]))
     (record_visit_failing [(''a'', VMap (Some [(''b'', VInt 1)]))] ''boom'') []
   = (Some ''boom'',
      [[(''k'', VSlice (Some [VMap (Some [(''a'', VMap (Some [(''b'', VInt 1)]))]),
                              VMap (Some [(''c'', VInt 2)])]))],
       [(''a'', VMap (Some [(''b'', VInt 1)]))]])
   \<and> IterateFieldsInInterface
     (VMap (Some [(''k'', VSlice (Some [VMap (Some [(''a'', VMap (Some [(''b'', VInt 1)]))]),
                                         VMap (Some [(''c'', VInt 2)])]))]))
     (record_field_failing ''b'' ''boom'') []
   = (Some ''boom'', [''k'', ''a'', ''b''])
   \<and> fst (IterateMapsInInterface
     (VMap (Some [(''k'', VSlice (Some [VMap (Some [(''a'', VMap (Some [(''b'', VInt 1)]))]),
                                         VMap (Some [(''c'', VInt 2)])]))]))
     record_visit []) = None"
proof -
  let ?b = "[(''b'', VInt 1)]"
  let ?a = "[(''a'', VMap (Some ?b))]"
  let ?c = "[(''c'', VInt 2)]"
  let ?sl = "VSlice (Some [VMap (Some ?a), VMap (Some ?c)])"
  let ?root = "[(''k'', ?sl)]"
  let ?v = "VMap (Some ?root)"
  let ?visit = "record_visit_failing ?a ''boom''"
  let ?fvisit = "record_field_failing ''b'' ''boom''"
  note t = walkers_stop_at_first_error [where v = ?v and visit = ?visit and s = "[]"
      and before = "[?root]" and m = ?a and after = "[?b, ?c]" and ?s1.0 = "[?root]"
      and err = "''boom''" and ?s2.0 = "[?root, ?a]"
      and fvisit = ?fvisit and t = "[]" and fbefore = "[(''k'', ?sl), (''a'', VMap (Some ?b))]"
      and k = "''b''" and x = "VInt 1" and fafter = ?c and ?t1.0 = "[''k'', ''a'']"
      and ferr = "''boom''" and ?t2.0 = "[''k'', ''a'', ''b'']"]
  have h1: "maps_depth_first ?v = [?root] @ ?a # [?b, ?c]
      \<and> visit_in_order ?visit [?root] [] = (None, [?root])
      \<and> ?visit ?a [?root] = (Some ''boom'', [?root, ?a])"
    by (simp add: record_visit_failing_def)
  have h2: "concat (maps_depth_first ?v) = [(''k'', ?sl), (''a'', VMap (Some ?b))] @ (''b'', VInt 1) # ?c
      \<and> visit_in_order (\<lambda>(k, x). ?fvisit k x) [(''k'', ?sl), (''a'', VMap (Some ?b))] [] = (None, [''k'', ''a''])
      \<and> ?fvisit ''b'' (VInt 1) [''k'', ''a''] = (Some ''boom'', [''k'', ''a'', ''b''])"
    by (simp add: record_field_failing_def)
  have c1: "IterateMapsInInterface ?v ?visit [] = (Some ''boom'', [?root, ?a])"
    using t [THEN conjunct2, THEN conjunct2, THEN conjunct1] h1 by (rule mp)
  have c2: "IterateFieldsInInterface ?v ?fvisit [] = (Some ''boom'', [''k'', ''a'', ''b''])"
    using t [THEN conjunct2, THEN conjunct2, THEN conjunct2, THEN conjunct1] h2 by (rule mp)
  have h3: "\<forall>m \<in> set (maps_depth_first ?v). \<forall>u. fst (record_visit m u :: unit option \<times> _) = None"
    by (simp add: record_visit_def)
  have c3: "fst (IterateMapsInInterface ?v record_visit []) = None"
    using walkers_stop_at_first_error [where v = ?v and visit = record_visit and s = "[]",
        THEN conjunct2, THEN conjunct2, THEN conjunct2, THEN conjunct2, THEN conjunct1] h3
    by (rule mp)
  from c1 c2 c3 show ?thesis by (intro conjI)
qed

text \<open>
  Claim C4 at \<^verbatim>\<open>{"k": [{"a": {"b": 1}}, {"c": 2}]}\<close>: the walker visits the root, then
  \<^verbatim>\<open>{"a": {"b": 1}}\<close>, then \<^verbatim>\<open>{"b": 1}\<close> two levels down, and only then \<^verbatim>\<open>{"c": 2}\<close> one
  level down; in breadth-first level order \<^verbatim>\<open>{"c": 2}\<close> comes before \<^verbatim>\<open>{"b": 1}\<close>.
\<close>

theorem IterateMapsInInterface_visits_depth_first:
  "IterateMapsInInterface
     (VMap (Some [(''k'', VSlice (Some [VMap (Some [(''a'', VMap (Some [(''b'', VInt 1)]))]),
                                         VMap (Some [(''c'', VInt 2)])]))]))
     record_visit []
   = (None,
      [[(''k'', VSlice (Some [VMap (Some [(''a'', VMap (Some [(''b'', VInt 1)]))]),
                              VMap (Some [(''c'', VInt 2)])]))],
       [(''a'', VMap (Some [(''b'', VInt 1)]))],
       [(''b'', VInt 1)],
       [(''c'', VInt 2)]])
   \<and> level_order
     (VMap (Some [(''k'', VSlice (Some [VMap (Some [(''a'', VMap (Some [(''b'', VInt 1)]))]),
                                         VMap (Some [(''c'', VInt 2)])]))]))
   = [[(''k'', VSlice (Some [VMap (Some [(''a'', VMap (Some [(''b'', VInt 1)]))]),
                              VMap (Some [(''c'', VInt 2)])]))],
       [(''a'', VMap (Some [(''b'', VInt 1)]))],
       [(''c'', VInt 2)],
       [(''b'', VInt 1)]]"
  by (simp add: record_visit_def level_order_def upt_rec numeral_eq_Suc)

end
